theory Spec2Isabelle
  imports Complex_Main "HOL-Library.Sublist" "HOL-Library.AList"
begin

section \<open>Python values\<close>

text \<open>
  Exceptions of the Python program, as values. \<open>OperationalError\<close> stands for a failed
  \<^verbatim>\<open>pd.read_sql\<close>, \<open>IntegrityError\<close> for an insert that the constraints declared in
  \<^verbatim>\<open>create_tables\<close> refuse.
\<close>

datatype error = KeyError | TypeError | AttributeError | ValueError
  | OperationalError | IntegrityError

text \<open>
  What \<^verbatim>\<open>response.json()\<close> can hold. Numbers of JSON are finite, so a float is a real
  number here; a string is a list of characters with code points below 256.
\<close>

datatype pyval =
    PNone
  | PBool bool
  | PInt int
  | PFloat real
  | PStr string
  | PList "pyval list"
  | PDict "(string \<times> pyval) list"

text \<open>A dict is the list of its items in insertion order; its keys are distinct.\<close>

type_synonym pydict = "(string \<times> pyval) list"

text \<open>\<^verbatim>\<open>d.get(key)\<close>, \<^verbatim>\<open>d.get(key, default)\<close>, \<^verbatim>\<open>d[key]\<close> and \<^verbatim>\<open>d[key] = value\<close>.\<close>

definition dict_get_default :: "pydict \<Rightarrow> string \<Rightarrow> pyval \<Rightarrow> pyval" where
  "dict_get_default d key dflt = (case map_of d key of None \<Rightarrow> dflt | Some v \<Rightarrow> v)"

definition dict_get :: "pydict \<Rightarrow> string \<Rightarrow> pyval" where
  "dict_get d key = dict_get_default d key PNone"

definition getitem :: "pydict \<Rightarrow> string \<Rightarrow> error + pyval" where
  "getitem d key = (case map_of d key of None \<Rightarrow> Inl KeyError | Some v \<Rightarrow> Inr v)"

definition setitem :: "pydict \<Rightarrow> string \<Rightarrow> pyval \<Rightarrow> pydict" where
  "setitem d key v = AList.update key v d"

text \<open>The truth value of an object, as \<^verbatim>\<open>all\<close> and \<^verbatim>\<open>if\<close> test it.\<close>

fun truthy :: "pyval \<Rightarrow> bool" where
  "truthy PNone = False"
| "truthy (PBool b) = b"
| "truthy (PInt i) = (i \<noteq> 0)"
| "truthy (PFloat x) = (x \<noteq> 0)"
| "truthy (PStr s) = (s \<noteq> [])"
| "truthy (PList xs) = (xs \<noteq> [])"
| "truthy (PDict kvs) = (kvs \<noteq> [])"

text \<open>
  \<^verbatim>\<open>isinstance(v, (int, float))\<close>. Python's \<^verbatim>\<open>bool\<close> is a subclass of \<^verbatim>\<open>int\<close>, so
  \<^verbatim>\<open>True\<close> and \<^verbatim>\<open>False\<close> are instances.
\<close>

fun isinstance_int_float :: "pyval \<Rightarrow> bool" where
  "isinstance_int_float (PBool b) = True"
| "isinstance_int_float (PInt i) = True"
| "isinstance_int_float (PFloat x) = True"
| "isinstance_int_float v = False"

text \<open>
  The key under which a set holds an object: \<^verbatim>\<open>1\<close>, \<^verbatim>\<open>1.0\<close> and \<^verbatim>\<open>True\<close> are equal and
  hash alike; a list or a dict is unhashable, and \<^verbatim>\<open>x in seen_ids\<close> raises TypeError.
\<close>

datatype hkey = KNone | KNum real | KStr string

fun hash_key :: "pyval \<Rightarrow> error + hkey" where
  "hash_key PNone = Inr KNone"
| "hash_key (PBool b) = Inr (KNum (if b then 1 else 0))"
| "hash_key (PInt i) = Inr (KNum (of_int i))"
| "hash_key (PFloat x) = Inr (KNum x)"
| "hash_key (PStr s) = Inr (KStr s)"
| "hash_key (PList xs) = Inl TypeError"
| "hash_key (PDict kvs) = Inl TypeError"

subsection \<open>str.strip\<close>

definition isspace :: "char \<Rightarrow> bool" where
  "isspace c = (of_char c \<in> {9, 10, 11, 12, 13, 28, 29, 30, 31, 32, 133, 160 :: nat})"

definition strip :: "string \<Rightarrow> string" where
  "strip s = rev (dropWhile isspace (rev (dropWhile isspace s)))"

subsection \<open>datetime.strptime with the format %Y-%m-%d\<close>

text \<open>
  The standard library turns the format into the regular expression
  \<^verbatim>\<open>(?P<Y>\d\d\d\d)-(?P<m>1[0-2]|0[1-9]|[1-9])-(?P<d>3[0-1]|[1-2]\d|0[1-9]|[1-9]| [1-9])\<close>,
  matches it at the start of the string, refuses a match that leaves characters over, and
  builds the date, which refuses a year 0 and a day the month does not have. Each
  directive is modelled by the list of its matches in the order in which the
  alternatives are tried; the first complete path is the match.
\<close>

definition digit :: "char \<Rightarrow> bool" where
  "digit c = (c \<in> set ''0123456789'')"

definition digit_val :: "char \<Rightarrow> nat" where
  "digit_val c = of_char c - 48"

fun match_Y :: "string \<Rightarrow> (nat \<times> string) list" where
  "match_Y (a # b # c # d # rest) =
     (if digit a \<and> digit b \<and> digit c \<and> digit d
      then [(1000 * digit_val a + 100 * digit_val b + 10 * digit_val c + digit_val d, rest)]
      else [])"
| "match_Y s = []"

fun two_chars :: "(char \<Rightarrow> bool) \<Rightarrow> (char \<Rightarrow> bool) \<Rightarrow> string \<Rightarrow> (nat \<times> string) list" where
  "two_chars p q (a # b # rest) =
     (if p a \<and> q b then [(10 * (if digit a then digit_val a else 0) + digit_val b, rest)]
      else [])"
| "two_chars p q s = []"

fun one_char :: "(char \<Rightarrow> bool) \<Rightarrow> string \<Rightarrow> (nat \<times> string) list" where
  "one_char p (a # rest) = (if p a then [(digit_val a, rest)] else [])"
| "one_char p s = []"

definition match_m :: "string \<Rightarrow> (nat \<times> string) list" where
  "match_m s =
     two_chars (\<lambda>c. c = CHR ''1'') (\<lambda>c. c \<in> set ''012'') s
     @ two_chars (\<lambda>c. c = CHR ''0'') (\<lambda>c. c \<in> set ''123456789'') s
     @ one_char (\<lambda>c. c \<in> set ''123456789'') s"

definition match_d :: "string \<Rightarrow> (nat \<times> string) list" where
  "match_d s =
     two_chars (\<lambda>c. c = CHR ''3'') (\<lambda>c. c \<in> set ''01'') s
     @ two_chars (\<lambda>c. c \<in> set ''12'') digit s
     @ two_chars (\<lambda>c. c = CHR ''0'') (\<lambda>c. c \<in> set ''123456789'') s
     @ one_char (\<lambda>c. c \<in> set ''123456789'') s
     @ two_chars (\<lambda>c. c = CHR '' '') (\<lambda>c. c \<in> set ''123456789'') s"

fun match_dash :: "string \<Rightarrow> string list" where
  "match_dash (a # rest) = (if a = CHR ''-'' then [rest] else [])"
| "match_dash s = []"

definition format_regex_match :: "string \<Rightarrow> ((nat \<times> nat \<times> nat) \<times> string) option" where
  "format_regex_match data_string =
     (case concat (map (\<lambda>(y, r1). concat (map (\<lambda>r2. concat (map (\<lambda>(m, r3).
              concat (map (\<lambda>r4. map (\<lambda>(d, r5). ((y, m, d), r5)) (match_d r4))
                (match_dash r3))) (match_m r2))) (match_dash r1))) (match_Y data_string)) of
        [] \<Rightarrow> None
      | found # others \<Rightarrow> Some found)"

definition is_leap :: "nat \<Rightarrow> bool" where
  "is_leap y = (y mod 4 = 0 \<and> (y mod 100 \<noteq> 0 \<or> y mod 400 = 0))"

definition days_in_month :: "nat \<Rightarrow> nat \<Rightarrow> nat" where
  "days_in_month y m =
     (if m = 2 then (if is_leap y then 29 else 28)
      else if m \<in> {4, 6, 9, 11} then 30 else 31)"

definition valid_date :: "nat \<Rightarrow> nat \<Rightarrow> nat \<Rightarrow> bool" where
  "valid_date y m d = (1 \<le> y \<and> y \<le> 9999 \<and> 1 \<le> m \<and> m \<le> 12 \<and> 1 \<le> d \<and> d \<le> days_in_month y m)"

definition strptime :: "string \<Rightarrow> error + (nat \<times> nat \<times> nat)" where
  "strptime data_string =
     (case format_regex_match data_string of
        None \<Rightarrow> Inl ValueError
      | Some ((y, m, d), rest) \<Rightarrow>
          if rest \<noteq> [] then Inl ValueError
          else if valid_date y m d then Inr (y, m, d)
          else Inl ValueError)"

section \<open>Validation and cleanup\<close>

definition essential_fields :: "string list" where
  "essential_fields = [''title'', ''release_date'']"

definition check_essential_fields :: "pydict \<Rightarrow> bool" where
  "check_essential_fields movie = list_all (\<lambda>field. truthy (dict_get movie field)) essential_fields"

text \<open>A release date that is not a string makes \<^verbatim>\<open>strptime\<close> raise TypeError.\<close>

definition check_release_date :: "pydict \<Rightarrow> bool" where
  "check_release_date movie =
     (case dict_get movie ''release_date'' of
        PStr s \<Rightarrow> (case strptime s of Inl e \<Rightarrow> False | Inr date \<Rightarrow> True)
      | v \<Rightarrow> False)"

definition numeric_fields :: "string list" where
  "numeric_fields = [''vote_average'', ''vote_count'', ''popularity'']"

definition check_numeric_fields :: "pydict \<Rightarrow> bool" where
  "check_numeric_fields movie =
     list_all (\<lambda>field. isinstance_int_float (dict_get movie field)) numeric_fields"

text \<open>
  \<^verbatim>\<open>text.strip() if text else ''\<close>: a true value that is not a string has no \<^verbatim>\<open>strip\<close>
  and raises AttributeError.
\<close>

definition clean_overview :: "pydict \<Rightarrow> error + pyval" where
  "clean_overview movie =
     (let text = dict_get_default movie ''overview'' (PStr '''')
      in if truthy text
         then (case text of PStr s \<Rightarrow> Inr (PStr (strip s)) | v \<Rightarrow> Inl AttributeError)
         else Inr (PStr ''''))"

text \<open>
  The body of the \<^verbatim>\<open>try\<close> in \<^verbatim>\<open>cleanup_data\<close> for one record: \<open>Inl\<close> when it raises (the
  \<^verbatim>\<open>except\<close> logs the error and the loop goes on), \<open>Inr None\<close> when it reaches a
  \<^verbatim>\<open>continue\<close>, and otherwise the record that is appended with the key added to
  \<^verbatim>\<open>seen_ids\<close>. The calls of \<^verbatim>\<open>logging\<close> are left out.
\<close>

definition cleanup_record :: "hkey set \<Rightarrow> pydict \<Rightarrow> error + (pydict \<times> hkey) option" where
  "cleanup_record seen_ids dataset =
     (case getitem dataset ''id'' of
        Inl e \<Rightarrow> Inl e
      | Inr ident \<Rightarrow>
          (case hash_key ident of
             Inl e \<Rightarrow> Inl e
           | Inr k \<Rightarrow>
               if k \<in> seen_ids then Inr None
               else if \<not> (check_essential_fields dataset \<and> check_release_date dataset
                          \<and> check_numeric_fields dataset) then Inr None
               else (case clean_overview dataset of
                       Inl e \<Rightarrow> Inl e
                     | Inr text \<Rightarrow> Inr (Some (setitem dataset ''overview'' text, k)))))"

fun cleanup_loop :: "hkey set \<Rightarrow> pydict list \<Rightarrow> pydict list \<Rightarrow> pydict list" where
  "cleanup_loop seen_ids cleaned_data [] = cleaned_data"
| "cleanup_loop seen_ids cleaned_data (dataset # raw_data) =
     (case cleanup_record seen_ids dataset of
        Inr (Some (kept, k)) \<Rightarrow> cleanup_loop (insert k seen_ids) (cleaned_data @ [kept]) raw_data
      | Inr None \<Rightarrow> cleanup_loop seen_ids cleaned_data raw_data
      | Inl e \<Rightarrow> cleanup_loop seen_ids cleaned_data raw_data)"

definition cleanup_data :: "pydict list \<Rightarrow> pydict list" where
  "cleanup_data raw_data = cleanup_loop {} [] raw_data"

text \<open>
  The two stages of the specification, to compare the loop with. A record is validated
  when the body of the loop keeps it in a run that has seen no identifier yet; the result
  is the normalized record with the key of its identifier.
\<close>

definition validated :: "pydict \<Rightarrow> (pydict \<times> hkey) option" where
  "validated dataset = (case cleanup_record {} dataset of Inr (Some x) \<Rightarrow> Some x | _ \<Rightarrow> None)"

text \<open>Keep the first record of every key and discard all later ones with that key.\<close>

fun first_occurrences :: "('a \<times> 'k) list \<Rightarrow> ('a \<times> 'k) list" where
  "first_occurrences [] = []"
| "first_occurrences (x # xs) = x # first_occurrences (filter (\<lambda>y. snd y \<noteq> snd x) xs)"

text \<open>The key of a record's identifier, when it has a hashable one.\<close>

definition record_key :: "pydict \<Rightarrow> hkey option" where
  "record_key d = (case map_of d ''id'' of None \<Rightarrow> None
     | Some v \<Rightarrow> (case hash_key v of Inl e \<Rightarrow> None | Inr k \<Rightarrow> Some k))"

subsection \<open>Sample records\<close>

definition example_movie :: "pyval \<Rightarrow> pyval \<Rightarrow> pyval \<Rightarrow> pydict" where
  "example_movie ident date ov =
     [(''id'', ident), (''title'', PStr ''Dune''), (''release_date'', date),
      (''vote_average'', PFloat 7.5), (''vote_count'', PInt 120), (''popularity'', PFloat 31.5),
      (''overview'', ov), (''genre_ids'', PList [PInt 878, PInt 12])]"

text \<open>Two records with the identifier 5, at the positions 0 and 3.\<close>

definition batch_with_duplicate :: "pydict list" where
  "batch_with_duplicate =
     [example_movie (PInt 5) (PStr ''2024-05-17'') (PStr ''first''),
      example_movie (PInt 6) (PStr ''2023-11-02'') (PStr ''second''),
      example_movie (PInt 7) (PStr ''2022-01-30'') (PStr ''third''),
      example_movie (PInt 5) (PStr ''2021-07-09'') (PStr ''fourth'')]"

section \<open>Shaping: filter_data\<close>

text \<open>
  A pandas DataFrame as the loader sees it: either it has no columns at all (what
  \<^verbatim>\<open>pd.DataFrame([])\<close> builds), or it has the columns of its table and a list of rows,
  possibly none.
\<close>

datatype 'a frame = NoColumns | Frame "'a list"

text \<open>\<^verbatim>\<open>df[name]\<close>: the column, or KeyError when the frame has no such column.\<close>

definition column :: "('a \<Rightarrow> 'b) \<Rightarrow> 'a frame \<Rightarrow> error + 'b list" where
  "column f df = (case df of NoColumns \<Rightarrow> Inl KeyError | Frame rows \<Rightarrow> Inr (map f rows))"

definition frame_rows :: "'a frame \<Rightarrow> 'a list" where
  "frame_rows df = (case df of NoColumns \<Rightarrow> [] | Frame rows \<Rightarrow> rows)"

definition DataFrame :: "'a list \<Rightarrow> 'a frame" where
  "DataFrame records = (if records = [] then NoColumns else Frame records)"

text \<open>
  A frame built from a list of dicts has the keys of all of them as its columns; a
  record without a key has NaN in that column.
\<close>

datatype cell = NaN | Cell pyval

definition frame_columns :: "pydict frame \<Rightarrow> string list" where
  "frame_columns df = remdups (concat (map (map fst) (frame_rows df)))"

definition cell_of :: "pydict \<Rightarrow> string \<Rightarrow> cell" where
  "cell_of d key = (case map_of d key of None \<Rightarrow> NaN | Some v \<Rightarrow> Cell v)"

text \<open>\<^verbatim>\<open>df[[c1, ..., cn]]\<close>: KeyError when a label is not a column of the frame.\<close>

definition select_columns :: "string list \<Rightarrow> pydict frame \<Rightarrow> error + (string \<times> cell) list frame" where
  "select_columns labels df =
     (if list_all (\<lambda>c. c \<in> set (frame_columns df)) labels
      then Inr (Frame (map (\<lambda>d. map (\<lambda>c. (c, cell_of d c)) labels) (frame_rows df)))
      else Inl KeyError)"

text \<open>\<^verbatim>\<open>row[label]\<close> for a row that \<^verbatim>\<open>iterrows\<close> yields.\<close>

definition row_getitem :: "pydict frame \<Rightarrow> pydict \<Rightarrow> string \<Rightarrow> error + cell" where
  "row_getitem df row label =
     (if label \<in> set (frame_columns df) then Inr (cell_of row label) else Inl KeyError)"

text \<open>
  \<^verbatim>\<open>for genre_id in value\<close>: a list gives its elements, a string its characters, a dict
  its keys; nothing else that a cell can hold is iterable.
\<close>

fun iterate :: "cell \<Rightarrow> error + pyval list" where
  "iterate (Cell (PList xs)) = Inr xs"
| "iterate (Cell (PStr s)) = Inr (map (\<lambda>c. PStr [c]) s)"
| "iterate (Cell (PDict kvs)) = Inr (map (\<lambda>kv. PStr (fst kv)) kvs)"
| "iterate c = Inl TypeError"

definition movie_columns :: "string list" where
  "movie_columns = [''id'', ''title'', ''overview'', ''release_date'', ''popularity'',
     ''vote_average'', ''vote_count'']"

text \<open>The inner loop for one row: \<^verbatim>\<open>row['id']\<close> is read once per genre identifier.\<close>

definition movie_genres_of_row :: "pydict frame \<Rightarrow> pydict \<Rightarrow> error + (cell \<times> pyval) list" where
  "movie_genres_of_row df_movies row =
     (case row_getitem df_movies row ''genre_ids'' of
        Inl e \<Rightarrow> Inl e
      | Inr value \<Rightarrow>
          (case iterate value of
             Inl e \<Rightarrow> Inl e
           | Inr genre_ids \<Rightarrow>
               if genre_ids = [] then Inr []
               else (case row_getitem df_movies row ''id'' of
                       Inl e \<Rightarrow> Inl e
                     | Inr movie_id \<Rightarrow> Inr (map (\<lambda>genre_id. (movie_id, genre_id)) genre_ids))))"

fun movie_genres_loop :: "pydict frame \<Rightarrow> (cell \<times> pyval) list \<Rightarrow> pydict list
    \<Rightarrow> error + (cell \<times> pyval) list" where
  "movie_genres_loop df_movies movie_genres_list [] = Inr movie_genres_list"
| "movie_genres_loop df_movies movie_genres_list (row # rows) =
     (case movie_genres_of_row df_movies row of
        Inl e \<Rightarrow> Inl e
      | Inr new \<Rightarrow> movie_genres_loop df_movies (movie_genres_list @ new) rows)"

text \<open>
  \<^verbatim>\<open>filter_data\<close> catches nothing: an exception leaves the function. The link rows are
  pairs (movie_id, genre_id).
\<close>

definition filter_data :: "pydict list \<Rightarrow> pydict list
    \<Rightarrow> error + ((string \<times> cell) list frame \<times> pydict frame \<times> (cell \<times> pyval) frame)" where
  "filter_data cleaned_data genres_list =
     (let df_movies = DataFrame cleaned_data
      in case select_columns movie_columns df_movies of
           Inl e \<Rightarrow> Inl e
         | Inr df_movies_filtered \<Rightarrow>
             (let df_genres = DataFrame genres_list
              in case movie_genres_loop df_movies [] (frame_rows df_movies) of
                   Inl e \<Rightarrow> Inl e
                 | Inr movie_genres_list \<Rightarrow>
                     Inr (df_movies_filtered, df_genres, DataFrame movie_genres_list)))"

text \<open>The genre identifiers attached to a record, when they are a list.\<close>

definition genre_ids_of :: "pydict \<Rightarrow> pyval list" where
  "genre_ids_of d = (case map_of d ''genre_ids'' of Some (PList gs) \<Rightarrow> gs | _ \<Rightarrow> [])"

subsection \<open>A sample batch and a sample genre catalog\<close>

text \<open>
  The first movie repeats a genre identifier, the second has no genre, the third has the
  two genres of \<open>example_movie\<close>.
\<close>

definition batch_with_genres :: "pydict list" where
  "batch_with_genres =
     [setitem (example_movie (PInt 5) (PStr ''2024-05-17'') (PStr ''first''))
        ''genre_ids'' (PList [PInt 12, PInt 12, PInt 878]),
      setitem (example_movie (PInt 6) (PStr ''2023-11-02'') (PStr ''second''))
        ''genre_ids'' (PList []),
      example_movie (PInt 7) (PStr ''2022-01-30'') (PStr ''third'')]"

definition genre_catalog :: "pydict list" where
  "genre_catalog = [[(''id'', PInt 12), (''name'', PStr ''Adventure'')],
     [(''id'', PInt 878), (''name'', PStr ''Science Fiction'')]]"

section \<open>The relational store\<close>

datatype table_name = Movies | Genres | MovieGenres

text \<open>
  The rows of the three tables, with the columns that \<^verbatim>\<open>create_tables\<close> declares. A row
  of \<^verbatim>\<open>movie_genres\<close> is the pair (movie_id, genre_id).
\<close>

record movie_row =
  movie_row_id :: int
  title :: string
  overview :: string
  release_date :: string
  popularity :: real
  vote_average :: real
  vote_count :: int

record genre_row =
  genre_row_id :: int
  name :: string

type_synonym movie_genre_row = "int \<times> int"

text \<open>\<^verbatim>\<open>series.isin(values)\<close>, \<^verbatim>\<open>~mask\<close> and \<^verbatim>\<open>df[mask]\<close>.\<close>

definition isin :: "'b list \<Rightarrow> 'b list \<Rightarrow> bool list" where
  "isin series values = map (\<lambda>v. v \<in> set values) series"

definition invert :: "bool list \<Rightarrow> bool list" where
  "invert flags = map Not flags"

definition boolean_index :: "'a list \<Rightarrow> bool list \<Rightarrow> 'a list" where
  "boolean_index rows flags = map fst (filter snd (zip rows flags))"

text \<open>
  \<^verbatim>\<open>left.merge(right, on=['movie_id', 'genre_id'], how='left', indicator=True)\<close>, for
  frames that hold exactly these two columns: every left row, in the order of the left
  frame, once for each right row with the same pair, marked \<open>both\<close>; a left row with no
  partner once, marked \<open>left_only\<close>. A left frame without the key columns raises KeyError.
\<close>

datatype merge_indicator = left_only | right_only | both

definition merge_left :: "movie_genre_row frame \<Rightarrow> movie_genre_row list
    \<Rightarrow> error + (movie_genre_row \<times> merge_indicator) list" where
  "merge_left left right =
     (case left of
        NoColumns \<Rightarrow> Inl KeyError
      | Frame rows \<Rightarrow>
          Inr (concat (map (\<lambda>l. let partners = filter (\<lambda>r. r = l) right
                                 in if partners = [] then [(l, left_only)]
                                    else map (\<lambda>r. (l, both)) partners) rows)))"

text \<open>
  The store: the rows of each table in insertion order, and the tables whose
  \<^verbatim>\<open>SELECT\<close> fails.
\<close>

record db =
  movies :: "movie_row list"
  genres :: "genre_row list"
  movie_genres :: "movie_genre_row list"
  unreadable :: "table_name set"

definition read_sql_movie_ids :: "db \<Rightarrow> error + int list" where
  "read_sql_movie_ids d =
     (if Movies \<in> unreadable d then Inl OperationalError
      else Inr (map movie_row_id (movies d)))"

definition read_sql_genre_ids :: "db \<Rightarrow> error + int list" where
  "read_sql_genre_ids d =
     (if Genres \<in> unreadable d then Inl OperationalError
      else Inr (map genre_row_id (genres d)))"

definition read_sql_movie_genres :: "db \<Rightarrow> error + movie_genre_row list" where
  "read_sql_movie_genres d =
     (if MovieGenres \<in> unreadable d then Inl OperationalError
      else Inr (movie_genres d))"

text \<open>
  What one call of \<^verbatim>\<open>load_data_to_db\<close> leaves behind: the store, the \<^verbatim>\<open>to_sql\<close> calls
  it issued (also the refused ones) and the lines it logged.
\<close>

datatype to_sql_call =
    To_movies "movie_row list"
  | To_genres "genre_row list"
  | To_movie_genres "movie_genre_row list"

datatype log_event =
    Info_loaded table_name nat
  | Info_nothing table_name
  | Error_failed error

record run =
  store :: db
  writes :: "to_sql_call list"
  log :: "log_event list"

definition info :: "log_event \<Rightarrow> run \<Rightarrow> run" where
  "info ev r = r\<lparr>log := log r @ [ev]\<rparr>"

text \<open>
  \<^verbatim>\<open>df.to_sql(table, engine, if_exists='append', index=False)\<close>: one transaction. The
  store refuses the whole insert when it would break a constraint of \<^verbatim>\<open>create_tables\<close>:
  the primary key on \<^verbatim>\<open>movies.id\<close> and \<^verbatim>\<open>genres.id\<close>, the unique index on
  (movie_id, genre_id) and the two foreign keys of \<^verbatim>\<open>movie_genres\<close>.
\<close>

definition to_sql_movies :: "movie_row list \<Rightarrow> run \<Rightarrow> error option \<times> run" where
  "to_sql_movies rows r =
     (let d = store r; r' = r\<lparr>writes := writes r @ [To_movies rows]\<rparr>
      in if distinct (map movie_row_id rows)
            \<and> list_all (\<lambda>x. movie_row_id x \<notin> set (map movie_row_id (movies d))) rows
         then (None, r'\<lparr>store := d\<lparr>movies := movies d @ rows\<rparr>\<rparr>)
         else (Some IntegrityError, r'))"

definition to_sql_genres :: "genre_row list \<Rightarrow> run \<Rightarrow> error option \<times> run" where
  "to_sql_genres rows r =
     (let d = store r; r' = r\<lparr>writes := writes r @ [To_genres rows]\<rparr>
      in if distinct (map genre_row_id rows)
            \<and> list_all (\<lambda>x. genre_row_id x \<notin> set (map genre_row_id (genres d))) rows
         then (None, r'\<lparr>store := d\<lparr>genres := genres d @ rows\<rparr>\<rparr>)
         else (Some IntegrityError, r'))"

definition to_sql_movie_genres :: "movie_genre_row list \<Rightarrow> run \<Rightarrow> error option \<times> run" where
  "to_sql_movie_genres rows r =
     (let d = store r; r' = r\<lparr>writes := writes r @ [To_movie_genres rows]\<rparr>
      in if distinct rows
            \<and> list_all (\<lambda>x. x \<notin> set (movie_genres d)) rows
            \<and> list_all (\<lambda>x. fst x \<in> set (map movie_row_id (movies d))) rows
            \<and> list_all (\<lambda>x. snd x \<in> set (map genre_row_id (genres d))) rows
         then (None, r'\<lparr>store := d\<lparr>movie_genres := movie_genres d @ rows\<rparr>\<rparr>)
         else (Some IntegrityError, r'))"

section \<open>load_data_to_db\<close>

text \<open>
  \<^verbatim>\<open>new_movies_df = movies_df[~movies_df['id'].isin(existing_movie_ids)]\<close> and the same
  expression for the genres.
\<close>

definition new_movies_df :: "movie_row frame \<Rightarrow> int list \<Rightarrow> error + movie_row list" where
  "new_movies_df movies_df existing_movie_ids =
     (case column movie_row_id movies_df of
        Inl e \<Rightarrow> Inl e
      | Inr ids \<Rightarrow> Inr (boolean_index (frame_rows movies_df) (invert (isin ids existing_movie_ids))))"

definition new_genres_df :: "genre_row frame \<Rightarrow> int list \<Rightarrow> error + genre_row list" where
  "new_genres_df genres_df existing_genre_ids =
     (case column genre_row_id genres_df of
        Inl e \<Rightarrow> Inl e
      | Inr ids \<Rightarrow> Inr (boolean_index (frame_rows genres_df) (invert (isin ids existing_genre_ids))))"

text \<open>
  The merge, the selection of the rows marked \<open>left_only\<close> and the drop of the
  \<^verbatim>\<open>_merge\<close> column.
\<close>

definition new_movie_genres_df :: "movie_genre_row frame \<Rightarrow> movie_genre_row list
    \<Rightarrow> error + movie_genre_row list" where
  "new_movie_genres_df movie_genres_df existing_movie_genres =
     (case merge_left movie_genres_df existing_movie_genres of
        Inl e \<Rightarrow> Inl e
      | Inr merged \<Rightarrow> Inr (map fst (filter (\<lambda>row. snd row = left_only) merged)))"

text \<open>
  The three blocks of the \<^verbatim>\<open>try\<close> body. Each returns the exception that left it, if any,
  and the run as it stands at that point.
\<close>

definition add_new_movies :: "movie_row frame \<Rightarrow> run \<Rightarrow> error option \<times> run" where
  "add_new_movies movies_df r =
     (case read_sql_movie_ids (store r) of
        Inl e \<Rightarrow> (Some e, r)
      | Inr existing_movie_ids \<Rightarrow>
          (case new_movies_df movies_df existing_movie_ids of
             Inl e \<Rightarrow> (Some e, r)
           | Inr new \<Rightarrow>
               if new \<noteq> [] then
                 (case to_sql_movies new r of
                    (Some e, r') \<Rightarrow> (Some e, r')
                  | (None, r') \<Rightarrow> (None, info (Info_loaded Movies (length new)) r'))
               else (None, info (Info_nothing Movies) r)))"

definition add_new_genres :: "genre_row frame \<Rightarrow> run \<Rightarrow> error option \<times> run" where
  "add_new_genres genres_df r =
     (case read_sql_genre_ids (store r) of
        Inl e \<Rightarrow> (Some e, r)
      | Inr existing_genre_ids \<Rightarrow>
          (case new_genres_df genres_df existing_genre_ids of
             Inl e \<Rightarrow> (Some e, r)
           | Inr new \<Rightarrow>
               if new \<noteq> [] then
                 (case to_sql_genres new r of
                    (Some e, r') \<Rightarrow> (Some e, r')
                  | (None, r') \<Rightarrow> (None, info (Info_loaded Genres (length new)) r'))
               else (None, info (Info_nothing Genres) r)))"

definition add_new_movie_genres :: "movie_genre_row frame \<Rightarrow> run \<Rightarrow> error option \<times> run" where
  "add_new_movie_genres movie_genres_df r =
     (case read_sql_movie_genres (store r) of
        Inl e \<Rightarrow> (Some e, r)
      | Inr existing_movie_genres \<Rightarrow>
          (case new_movie_genres_df movie_genres_df existing_movie_genres of
             Inl e \<Rightarrow> (Some e, r)
           | Inr new \<Rightarrow>
               if new \<noteq> [] then
                 (case to_sql_movie_genres new r of
                    (Some e, r') \<Rightarrow> (Some e, r')
                  | (None, r') \<Rightarrow> (None, info (Info_loaded MovieGenres (length new)) r'))
               else (None, info (Info_nothing MovieGenres) r)))"

text \<open>
  The whole function: one \<^verbatim>\<open>try\<close> around the three blocks, one \<^verbatim>\<open>except Exception\<close> that
  logs the error. What was appended before the exception stays appended.
\<close>

definition load_data_to_db :: "db \<Rightarrow> movie_row frame \<Rightarrow> genre_row frame
    \<Rightarrow> movie_genre_row frame \<Rightarrow> run" where
  "load_data_to_db d movies_df genres_df movie_genres_df =
     (case add_new_movies movies_df \<lparr>store = d, writes = [], log = []\<rparr> of
        (Some e, r1) \<Rightarrow> info (Error_failed e) r1
      | (None, r1) \<Rightarrow>
          (case add_new_genres genres_df r1 of
             (Some e, r2) \<Rightarrow> info (Error_failed e) r2
           | (None, r2) \<Rightarrow>
               (case add_new_movie_genres movie_genres_df r2 of
                  (Some e, r3) \<Rightarrow> info (Error_failed e) r3
                | (None, r3) \<Rightarrow> r3)))"

section \<open>Notions used to state the properties of the load\<close>

text \<open>A run succeeded when it logged no error.\<close>

definition is_error :: "log_event \<Rightarrow> bool" where
  "is_error ev = (case ev of Error_failed e \<Rightarrow> True | _ \<Rightarrow> False)"

definition succeeded :: "run \<Rightarrow> bool" where
  "succeeded r = (\<not> list_ex is_error (log r))"

text \<open>
  The deltas in the words of the specification: the candidate rows whose key is not among
  the persisted keys.
\<close>

definition new_movie_rows :: "db \<Rightarrow> movie_row frame \<Rightarrow> movie_row list" where
  "new_movie_rows d movies_df =
     filter (\<lambda>x. movie_row_id x \<notin> set (map movie_row_id (movies d))) (frame_rows movies_df)"

definition new_genre_rows :: "db \<Rightarrow> genre_row frame \<Rightarrow> genre_row list" where
  "new_genre_rows d genres_df =
     filter (\<lambda>x. genre_row_id x \<notin> set (map genre_row_id (genres d))) (frame_rows genres_df)"

definition new_link_rows :: "db \<Rightarrow> movie_genre_row frame \<Rightarrow> movie_genre_row list" where
  "new_link_rows d movie_genres_df =
     filter (\<lambda>x. x \<notin> set (movie_genres d)) (frame_rows movie_genres_df)"

text \<open>What the unique index and the foreign keys ask of link rows that are not persisted yet.\<close>

definition links_accepted :: "db \<Rightarrow> movie_genre_row list \<Rightarrow> bool" where
  "links_accepted d rows = (distinct rows
     \<and> list_all (\<lambda>x. fst x \<in> set (map movie_row_id (movies d))) rows
     \<and> list_all (\<lambda>x. snd x \<in> set (map genre_row_id (genres d))) rows)"

subsection \<open>A sample store and sample candidates\<close>

definition sample_movie :: "int \<Rightarrow> movie_row" where
  "sample_movie i = \<lparr>movie_row_id = i, title = ''Dune'', overview = ''nice film'',
     release_date = ''2024-05-17'', popularity = 31.5, vote_average = 7.5, vote_count = 120\<rparr>"

definition sample_genre :: "int \<Rightarrow> genre_row" where
  "sample_genre i = \<lparr>genre_row_id = i, name = ''Adventure''\<rparr>"

text \<open>The store holds movie 1, genre 10 and their link; \<open>u\<close> are the tables that cannot be read.\<close>

definition sample_store :: "table_name set \<Rightarrow> db" where
  "sample_store u = \<lparr>movies = [sample_movie 1], genres = [sample_genre 10],
     movie_genres = [(1, 10)], unreadable = u\<rparr>"

definition sample_movies_df :: "movie_row frame" where
  "sample_movies_df = Frame [sample_movie 1, sample_movie 2]"

definition sample_genres_df :: "genre_row frame" where
  "sample_genres_df = Frame [sample_genre 10, sample_genre 20]"

definition sample_movie_genres_df :: "movie_genre_row frame" where
  "sample_movie_genres_df = Frame [(1, 10), (2, 10), (2, 20)]"

section \<open>Properties of the validation and of the cleanup loop\<close>

lemma cleanup_record_Some_iff:
  "cleanup_record seen d = Inr (Some (kept, k)) \<longleftrightarrow>
     (\<exists>ident ov. map_of d ''id'' = Some ident \<and> hash_key ident = Inr k \<and> k \<notin> seen
        \<and> check_essential_fields d \<and> check_release_date d \<and> check_numeric_fields d
        \<and> clean_overview d = Inr ov \<and> kept = setitem d ''overview'' ov)"
proof (cases "map_of d ''id''")
  case None
  then show ?thesis by (simp add: cleanup_record_def getitem_def)
next
  case (Some ident)
  note ident = this
  show ?thesis
  proof (cases "hash_key ident")
    case (Inl e)
    with ident show ?thesis by (simp add: cleanup_record_def getitem_def)
  next
    case (Inr k')
    note key = this
    show ?thesis
    proof (cases "clean_overview d")
      case (Inl e)
      with ident key show ?thesis by (simp add: cleanup_record_def getitem_def)
    next
      case (Inr ov)
      with ident key show ?thesis
        by (simp add: cleanup_record_def getitem_def) blast
    qed
  qed
qed

lemma validated_Some_iff: "validated d = Some x \<longleftrightarrow> cleanup_record {} d = Inr (Some x)"
  by (simp add: validated_def split: sum.splits option.splits)

lemma cleanup_record_validated:
  "cleanup_record seen d = Inr (Some x) \<longleftrightarrow> validated d = Some x \<and> snd x \<notin> seen"
proof (cases x)
  case (Pair kept k)
  show ?thesis
    unfolding Pair validated_Some_iff cleanup_record_Some_iff by auto
qed

lemma cleanup_loop_first_occurrences:
  "cleanup_loop seen acc raw
     = acc @ map fst (first_occurrences (filter (\<lambda>y. snd y \<notin> seen) (List.map_filter validated raw)))"
proof (induction raw arbitrary: seen acc)
  case Nil
  show ?case by (simp add: List.map_filter_simps)
next
  case (Cons d raw)
  show ?case
  proof (cases "validated d")
    case None
    then have "\<And>x. cleanup_record seen d \<noteq> Inr (Some x)"
      by (simp add: cleanup_record_validated)
    then have "cleanup_loop seen acc (d # raw) = cleanup_loop seen acc raw"
      by (auto split: sum.splits option.splits)
    with None Cons.IH show ?thesis by (simp add: List.map_filter_simps)
  next
    case (Some x)
    obtain kept k where x: "x = (kept, k)" by (cases x)
    show ?thesis
    proof (cases "k \<in> seen")
      case True
      then have "\<And>y. cleanup_record seen d \<noteq> Inr (Some y)"
        using Some x by (auto simp: cleanup_record_validated)
      then have "cleanup_loop seen acc (d # raw) = cleanup_loop seen acc raw"
        by (auto split: sum.splits option.splits)
      with True Some x Cons.IH show ?thesis by (simp add: List.map_filter_simps)
    next
      case False
      define ys where "ys = List.map_filter validated raw"
      from False have "cleanup_record seen d = Inr (Some (kept, k))"
        using Some x by (simp add: cleanup_record_validated)
      then have "cleanup_loop seen acc (d # raw) = cleanup_loop (insert k seen) (acc @ [kept]) raw"
        by simp
      also have "\<dots> = (acc @ [kept]) @ map fst (first_occurrences (filter (\<lambda>y. snd y \<notin> insert k seen) ys))"
        unfolding ys_def by (rule Cons.IH)
      finally have lhs: "cleanup_loop seen acc (d # raw)
          = acc @ kept # map fst (first_occurrences (filter (\<lambda>y. snd y \<notin> insert k seen) ys))"
        by simp
      have twice: "filter (\<lambda>y. snd y \<noteq> k) (filter (\<lambda>y. snd y \<notin> seen) ys)
          = filter (\<lambda>y. snd y \<notin> insert k seen) ys"
        by (induction ys) auto
      have "List.map_filter validated (d # raw) = (kept, k) # ys"
        using Some x by (simp add: List.map_filter_simps ys_def)
      then have "filter (\<lambda>y. snd y \<notin> seen) (List.map_filter validated (d # raw))
          = (kept, k) # filter (\<lambda>y. snd y \<notin> seen) ys"
        using False by simp
      then have "first_occurrences (filter (\<lambda>y. snd y \<notin> seen) (List.map_filter validated (d # raw)))
          = (kept, k) # first_occurrences (filter (\<lambda>y. snd y \<notin> insert k seen) ys)"
        by (simp only: first_occurrences.simps snd_conv twice)
      with lhs show ?thesis by (simp only: list.map fst_conv)
    qed
  qed
qed

lemma set_first_occurrences: "set (first_occurrences ys) \<subseteq> set ys"
  by (induction ys rule: first_occurrences.induct) auto

lemma distinct_first_occurrences: "distinct (map snd (first_occurrences ys))"
proof (induction ys rule: first_occurrences.induct)
  case 1
  show ?case by simp
next
  case (2 x xs)
  have "snd x \<notin> snd ` set (first_occurrences (filter (\<lambda>y. snd y \<noteq> snd x) xs))"
    using set_first_occurrences [of "filter (\<lambda>y. snd y \<noteq> snd x) xs"] by auto
  with 2 show ?case by simp
qed

lemma subseq_first_occurrences: "subseq (first_occurrences ys) ys"
proof (induction ys rule: first_occurrences.induct)
  case 1
  show ?case by simp
next
  case (2 x xs)
  have "subseq (filter (\<lambda>y. snd y \<noteq> snd x) xs) xs" by simp
  with 2 have "subseq (first_occurrences (filter (\<lambda>y. snd y \<noteq> snd x) xs)) xs"
    using subseq_order.order_trans by blast
  then show ?case by simp
qed

lemma validated_record_key:
  assumes "validated d = Some (kept, k)"
  shows "record_key kept = Some k \<and> record_key d = Some k"
proof -
  from assms obtain ident ov where
    i: "map_of d ''id'' = Some ident" and h: "hash_key ident = Inr k"
    and kept: "kept = setitem d ''overview'' ov"
    unfolding validated_Some_iff cleanup_record_Some_iff by blast
  have "map_of kept ''id'' = Some ident"
    unfolding kept setitem_def by (simp add: update_conv i)
  with i h show ?thesis by (simp add: record_key_def)
qed

lemma validated_keys:
  "map record_key (map fst (List.map_filter validated raw))
     = map (\<lambda>y. Some (snd y)) (List.map_filter validated raw)"
proof (induction raw)
  case Nil
  show ?case by (simp add: List.map_filter_simps)
next
  case (Cons d raw)
  show ?case
  proof (cases "validated d")
    case None
    with Cons.IH show ?thesis by (simp add: List.map_filter_simps)
  next
    case (Some x)
    obtain kept k where x: "x = (kept, k)" by (cases x)
    from Some x have "record_key kept = Some k" using validated_record_key by blast
    with Some x Cons.IH show ?thesis by (simp add: List.map_filter_simps)
  qed
qed

lemma validated_subseq:
  "subseq (map (\<lambda>y. Some (snd y)) (List.map_filter validated raw)) (map record_key raw)"
proof (induction raw)
  case Nil
  show ?case by (simp add: List.map_filter_simps)
next
  case (Cons d raw)
  show ?case
  proof (cases "validated d")
    case None
    from Cons.IH have "subseq (map (\<lambda>y. Some (snd y)) (List.map_filter validated raw)) (record_key d # map record_key raw)"
      by (rule list_emb_Cons)
    with None show ?thesis by (simp add: List.map_filter_simps)
  next
    case (Some x)
    obtain kept k where x: "x = (kept, k)" by (cases x)
    from Some x have "record_key d = Some k" using validated_record_key by blast
    with Some x Cons.IH show ?thesis by (simp add: List.map_filter_simps)
  qed
qed

lemmas strptime_eval = strptime_def format_regex_match_def match_m_def match_d_def digit_def
  digit_val_def valid_date_def days_in_month_def is_leap_def

lemmas cleanup_eval = cleanup_data_def cleanup_record_def getitem_def setitem_def dict_get_def
  dict_get_default_def check_essential_fields_def essential_fields_def check_release_date_def
  check_numeric_fields_def numeric_fields_def clean_overview_def strip_def isspace_def
  example_movie_def strptime_eval


text \<open>
  The month and the day need no zero padding for \<^verbatim>\<open>strptime\<close>, and the day may be
  written with a leading space; the year has four digits.
\<close>

lemma strptime_padding_optional:
  "strptime ''2024-1-5'' = Inr (2024, 1, 5) \<and> strptime ''2024-01- 5'' = Inr (2024, 1, 5)
   \<and> strptime ''2024-01-05'' = Inr (2024, 1, 5) \<and> strptime ''24-01-05'' = Inl ValueError
   \<and> strptime ''2023-02-29'' = Inl ValueError \<and> strptime ''2024-02-29'' = Inr (2024, 2, 29)"
  by (simp add: strptime_eval)




lemma cleanup_data_first_occurrences:
  "cleanup_data raw = map fst (first_occurrences (List.map_filter validated raw))"
  by (simp add: cleanup_data_def cleanup_loop_first_occurrences)

lemma keys_of_pairs:
  "(\<And>x. x \<in> set zs \<Longrightarrow> record_key (fst x) = Some (snd x))
     \<Longrightarrow> map record_key (map fst zs) = map (\<lambda>y. Some (snd y)) zs"
  by (induction zs) simp_all

lemma validated_pairs:
  "x \<in> set (List.map_filter validated raw) \<Longrightarrow> \<exists>d \<in> set raw. validated d = Some x"
  by (auto simp: List.map_filter_def)

lemma cleanup_data_keys:
  "map record_key (cleanup_data raw)
     = map (\<lambda>y. Some (snd y)) (first_occurrences (List.map_filter validated raw))"
proof -
  have "record_key (fst x) = Some (snd x)"
    if "x \<in> set (first_occurrences (List.map_filter validated raw))" for x
  proof -
    from that have "x \<in> set (List.map_filter validated raw)"
      using set_first_occurrences by blast
    then obtain d where "validated d = Some x"
      using validated_pairs by blast
    then show ?thesis
      using validated_record_key [of d "fst x" "snd x"] by simp
  qed
  then show ?thesis
    unfolding cleanup_data_first_occurrences by (rule keys_of_pairs)
qed

lemma cleanup_data_distinct: "distinct (map record_key (cleanup_data raw))"
proof -
  let ?zs = "first_occurrences (List.map_filter validated raw)"
  have "distinct (map Some (map snd ?zs))"
    using distinct_first_occurrences [of "List.map_filter validated raw"]
    by (subst distinct_map) simp
  moreover have "map (\<lambda>y. Some (snd y)) ?zs = map Some (map snd ?zs)"
    by simp
  ultimately show ?thesis
    unfolding cleanup_data_keys by (simp only:)
qed

lemma cleanup_data_subseq: "subseq (map record_key (cleanup_data raw)) (map record_key raw)"
proof -
  let ?ys = "List.map_filter validated raw"
  have "subseq (map (\<lambda>y. Some (snd y)) (first_occurrences ?ys)) (map (\<lambda>y. Some (snd y)) ?ys)"
    by (rule subseq_map) (rule subseq_first_occurrences)
  then have "subseq (map (\<lambda>y. Some (snd y)) (first_occurrences ?ys)) (map record_key raw)"
    using validated_subseq subseq_order.order_trans by blast
  then show ?thesis
    unfolding cleanup_data_keys .
qed

text \<open>
  C7. The cleanup keeps at most one record per identifier: the result is the list of the
  validated records in which the first record of every identifier is kept and all later
  ones with that identifier are discarded; no identifier occurs twice in it, and the
  identifiers of the result are a subsequence of those of the batch. Of the two records
  with the identifier 5 at the positions 0 and 3 of the sample batch, only the one at the
  position 0 survives.
\<close>

theorem deduplication_keeps_first:
  "cleanup_data raw = map fst (first_occurrences (List.map_filter validated raw))
   \<and> distinct (map record_key (cleanup_data raw))
   \<and> subseq (map record_key (cleanup_data raw)) (map record_key raw)
   \<and> cleanup_data batch_with_duplicate = take 3 batch_with_duplicate"
proof -
  have "cleanup_data batch_with_duplicate = take 3 batch_with_duplicate"
    by (simp add: batch_with_duplicate_def cleanup_eval)
  then show ?thesis
    using cleanup_data_first_occurrences cleanup_data_distinct cleanup_data_subseq by blast
qed

theorem deduplication_keeps_first_witness:
  "distinct (map record_key (cleanup_data batch_with_duplicate))
   \<and> map record_key (cleanup_data batch_with_duplicate)
       = [Some (KNum 5), Some (KNum 6), Some (KNum 7)]
   \<and> map record_key batch_with_duplicate
       = [Some (KNum 5), Some (KNum 6), Some (KNum 7), Some (KNum 5)]"
proof -
  from deduplication_keeps_first [of batch_with_duplicate]
  have kept: "cleanup_data batch_with_duplicate = take 3 batch_with_duplicate"
    and "distinct (map record_key (cleanup_data batch_with_duplicate))"
    by blast+
  moreover have "map record_key (take 3 batch_with_duplicate)
       = [Some (KNum 5), Some (KNum 6), Some (KNum 7)]"
    by (simp add: batch_with_duplicate_def record_key_def example_movie_def)
  moreover have "map record_key batch_with_duplicate
       = [Some (KNum 5), Some (KNum 6), Some (KNum 7), Some (KNum 5)]"
    by (simp add: batch_with_duplicate_def record_key_def example_movie_def)
  ultimately show ?thesis by (simp only:)
qed



lemma check_numeric_setitem_overview:
  "check_numeric_fields (setitem d ''overview'' v) = check_numeric_fields d"
  by (simp add: check_numeric_fields_def numeric_fields_def dict_get_def dict_get_default_def
      setitem_def update_conv)

lemma cleanup_data_members:
  assumes "kept \<in> set (cleanup_data raw)"
  shows "\<exists>d \<in> set raw. \<exists>k. validated d = Some (kept, k)"
proof -
  from assms obtain x where "x \<in> set (first_occurrences (List.map_filter validated raw))"
    and "kept = fst x"
    unfolding cleanup_data_first_occurrences by auto
  moreover from this have "x \<in> set (List.map_filter validated raw)"
    using set_first_occurrences by blast
  then obtain d where "d \<in> set raw" "validated d = Some x"
    using validated_pairs by blast
  ultimately have "d \<in> set raw" "validated d = Some (kept, snd x)"
    by simp_all
  then show ?thesis by blast
qed

lemma cleanup_data_numeric:
  assumes "kept \<in> set (cleanup_data raw)"
  shows "check_numeric_fields kept"
proof -
  from cleanup_data_members [OF assms] obtain d k where "validated d = Some (kept, k)"
    by blast
  then obtain ov where "check_numeric_fields d" "kept = setitem d ''overview'' ov"
    unfolding validated_Some_iff cleanup_record_Some_iff by blast
  then show ?thesis
    by (simp add: check_numeric_setitem_overview)
qed

lemma isinstance_int_float_iff:
  "isinstance_int_float v \<longleftrightarrow> (\<exists>b. v = PBool b) \<or> (\<exists>i. v = PInt i) \<or> (\<exists>x. v = PFloat x)"
  by (cases v) simp_all

text \<open>
  C3, as the claim states it, fails: a record whose vote_average is the boolean
  \<^verbatim>\<open>True\<close> passes the numeric check and is kept by the cleanup.
\<close>

theorem boolean_vote_average_accepted:
  "check_numeric_fields
     (setitem (example_movie (PInt 5) (PStr ''2024-05-17'') (PStr ''nice film''))
        ''vote_average'' (PBool True))
   \<and> cleanup_data
       [setitem (example_movie (PInt 5) (PStr ''2024-05-17'') (PStr ''nice film''))
          ''vote_average'' (PBool True)]
     = [setitem (example_movie (PInt 5) (PStr ''2024-05-17'') (PStr ''nice film''))
          ''vote_average'' (PBool True)]"
  by (simp add: cleanup_eval)

text \<open>
  C3, amended. A record in which one of vote_average, vote_count and popularity is not an
  instance of int or float is rejected, and every record that the cleanup returns has the
  three fields of these types. The instances are the integers, the floats and, since
  \<^verbatim>\<open>bool\<close> is a subclass of \<^verbatim>\<open>int\<close>, the booleans; a string, a null and a missing field
  are not.
\<close>

theorem numeric_fields_checked:
  "(field \<in> set numeric_fields \<and> \<not> isinstance_int_float (dict_get dataset field)
      \<longrightarrow> cleanup_record seen dataset \<noteq> Inr (Some (kept, k)))
   \<and> (kept \<in> set (cleanup_data raw)
      \<longrightarrow> isinstance_int_float (dict_get kept ''vote_average'')
        \<and> isinstance_int_float (dict_get kept ''vote_count'')
        \<and> isinstance_int_float (dict_get kept ''popularity''))
   \<and> (isinstance_int_float v
      \<longleftrightarrow> (\<exists>b. v = PBool b) \<or> (\<exists>i. v = PInt i) \<or> (\<exists>x. v = PFloat x))
   \<and> cleanup_data
       [setitem (example_movie (PInt 5) (PStr ''2024-05-17'') (PStr ''nice film''))
          ''vote_average'' (PStr ''high'')] = []
   \<and> cleanup_data
       [setitem (example_movie (PInt 5) (PStr ''2024-05-17'') (PStr ''nice film''))
          ''vote_count'' PNone] = []
   \<and> cleanup_data
       [AList.delete ''popularity''
          (example_movie (PInt 5) (PStr ''2024-05-17'') (PStr ''nice film''))] = []"
proof -
  have rejected: "cleanup_record seen dataset \<noteq> Inr (Some (kept, k))"
    if "field \<in> set numeric_fields" "\<not> isinstance_int_float (dict_get dataset field)"
  proof
    assume "cleanup_record seen dataset = Inr (Some (kept, k))"
    then have "check_numeric_fields dataset"
      unfolding cleanup_record_Some_iff by blast
    with that show False
      by (simp add: check_numeric_fields_def list_all_iff)
  qed
  have returned: "isinstance_int_float (dict_get kept ''vote_average'')
        \<and> isinstance_int_float (dict_get kept ''vote_count'')
        \<and> isinstance_int_float (dict_get kept ''popularity'')"
    if "kept \<in> set (cleanup_data raw)"
    using cleanup_data_numeric [OF that]
    by (simp add: check_numeric_fields_def numeric_fields_def)
  have "cleanup_data
       [setitem (example_movie (PInt 5) (PStr ''2024-05-17'') (PStr ''nice film''))
          ''vote_average'' (PStr ''high'')] = []"
    by (simp add: cleanup_eval)
  moreover have "cleanup_data
       [setitem (example_movie (PInt 5) (PStr ''2024-05-17'') (PStr ''nice film''))
          ''vote_count'' PNone] = []"
    by (simp add: cleanup_eval)
  moreover have "cleanup_data
       [AList.delete ''popularity''
          (example_movie (PInt 5) (PStr ''2024-05-17'') (PStr ''nice film''))] = []"
    by (simp add: cleanup_eval)
  ultimately show ?thesis
    using rejected returned isinstance_int_float_iff [of v] by blast
qed

theorem numeric_fields_checked_witness:
  "''vote_average'' \<in> set numeric_fields
   \<and> \<not> isinstance_int_float
        (dict_get (setitem (example_movie (PInt 5) (PStr ''2024-05-17'') (PStr ''nice film''))
           ''vote_average'' (PStr ''high'')) ''vote_average'')
   \<and> cleanup_record {}
        (setitem (example_movie (PInt 5) (PStr ''2024-05-17'') (PStr ''nice film''))
           ''vote_average'' (PStr ''high''))
      \<noteq> Inr (Some (setitem (example_movie (PInt 5) (PStr ''2024-05-17'') (PStr ''nice film''))
           ''vote_average'' (PStr ''high''), KNum 5))
   \<and> example_movie (PInt 5) (PStr ''2024-05-17'') (PStr ''nice film'')
        \<in> set (cleanup_data [example_movie (PInt 5) (PStr ''2024-05-17'') (PStr ''nice film'')])
   \<and> isinstance_int_float
        (dict_get (example_movie (PInt 5) (PStr ''2024-05-17'') (PStr ''nice film''))
           ''vote_count'')"
proof -
  let ?film = "example_movie (PInt 5) (PStr ''2024-05-17'') (PStr ''nice film'')"
  let ?high = "setitem ?film ''vote_average'' (PStr ''high'')"
  have pre: "''vote_average'' \<in> set numeric_fields"
    "\<not> isinstance_int_float (dict_get ?high ''vote_average'')"
    by (simp_all add: cleanup_eval)
  have mem: "?film \<in> set (cleanup_data [?film])"
    by (simp add: cleanup_eval)
  from pre numeric_fields_checked [of "''vote_average''" ?high "{}" ?high "KNum 5"]
  have "cleanup_record {} ?high \<noteq> Inr (Some (?high, KNum 5))"
    by blast
  moreover from mem numeric_fields_checked [of _ _ _ ?film _ "[?film]"]
  have "isinstance_int_float (dict_get ?film ''vote_count'')"
    by blast
  ultimately show ?thesis
    using pre mem by blast
qed

section \<open>Properties of the shaping\<close>

lemma column_of_record:
  "d \<in> set ds \<Longrightarrow> map_of d c = Some v \<Longrightarrow> c \<in> set (frame_columns (Frame ds))"
  by (force simp: frame_columns_def frame_rows_def dest: map_of_SomeD)

lemma DataFrame_nonempty: "ds \<noteq> [] \<Longrightarrow> DataFrame ds = Frame ds"
  by (simp add: DataFrame_def)

lemma movie_genres_of_row_list:
  assumes "''genre_ids'' \<in> set (frame_columns df)" "''id'' \<in> set (frame_columns df)"
    and "map_of d ''genre_ids'' = Some (PList gs)"
  shows "movie_genres_of_row df d = Inr (map (\<lambda>g. (cell_of d ''id'', g)) (genre_ids_of d))"
  using assms by (simp add: movie_genres_of_row_def row_getitem_def cell_of_def genre_ids_of_def)

lemma movie_genres_loop_concat:
  "(\<And>d. d \<in> set rows \<Longrightarrow> movie_genres_of_row df d = Inr (f d))
     \<Longrightarrow> movie_genres_loop df acc rows = Inr (acc @ concat (map f rows))"
  by (induction rows arbitrary: acc) simp_all

lemma select_columns_present:
  "(\<And>c. c \<in> set labels \<Longrightarrow> c \<in> set (frame_columns (Frame ds)))
     \<Longrightarrow> select_columns labels (Frame ds)
         = Inr (Frame (map (\<lambda>d. map (\<lambda>c. (c, cell_of d c)) labels) ds))"
  by (simp add: select_columns_def list_all_iff frame_rows_def)

lemma filter_data_shapeable:
  assumes ne: "cleaned_data \<noteq> []"
    and wf: "\<And>d. d \<in> set cleaned_data \<Longrightarrow>
        (\<forall>c \<in> set movie_columns. map_of d c \<noteq> None)
        \<and> (\<exists>gs. map_of d ''genre_ids'' = Some (PList gs))"
  shows "filter_data cleaned_data genres_list
      = Inr (Frame (map (\<lambda>d. map (\<lambda>c. (c, cell_of d c)) movie_columns) cleaned_data),
             DataFrame genres_list,
             DataFrame (concat (map (\<lambda>d. map (\<lambda>g. (cell_of d ''id'', g)) (genre_ids_of d))
               cleaned_data)))"
proof -
  let ?df = "Frame cleaned_data"
  from ne obtain d0 where d0: "d0 \<in> set cleaned_data"
    by (cases cleaned_data) auto
  have cols: "c \<in> set (frame_columns ?df)" if "c \<in> set movie_columns" for c
  proof -
    from wf [OF d0] that obtain v where "map_of d0 c = Some v" by blast
    with d0 show ?thesis by (rule column_of_record)
  qed
  have g: "''genre_ids'' \<in> set (frame_columns ?df)"
    using wf [OF d0] d0 column_of_record by blast
  have i: "''id'' \<in> set (frame_columns ?df)"
    by (rule cols) (simp add: movie_columns_def)
  have rows: "movie_genres_of_row ?df d = Inr (map (\<lambda>g. (cell_of d ''id'', g)) (genre_ids_of d))"
    if "d \<in> set cleaned_data" for d
    using wf [OF that] movie_genres_of_row_list [OF g i] by blast
  have loop: "movie_genres_loop ?df [] cleaned_data
      = Inr ([] @ concat (map (\<lambda>d. map (\<lambda>g. (cell_of d ''id'', g)) (genre_ids_of d)) cleaned_data))"
    using rows by (rule movie_genres_loop_concat)
  have sel: "select_columns movie_columns ?df
      = Inr (Frame (map (\<lambda>d. map (\<lambda>c. (c, cell_of d c)) movie_columns) cleaned_data))"
    using cols by (rule select_columns_present)
  show ?thesis
    using loop by (simp add: filter_data_def DataFrame_nonempty [OF ne] sel frame_rows_def)
qed

lemmas shape_eval = filter_data_def DataFrame_def select_columns_def frame_columns_def
  frame_rows_def movie_columns_def movie_genres_of_row_def row_getitem_def cell_of_def
  setitem_def example_movie_def Let_def

text \<open>
  C8. For a batch that is not empty and whose records carry the seven movie attributes and
  a list of genre identifiers, the link table of \<^verbatim>\<open>filter_data\<close> is built from the rows
  (movie_id, genre_id) for every movie in the order of the batch and every genre
  identifier of its list in the order of the list: a movie with an empty list gives no
  row, and a repeated identifier gives a repeated row.
\<close>

theorem link_table_rows:
  assumes "cleaned_data \<noteq> []"
    and "\<forall>d \<in> set cleaned_data. (\<forall>c \<in> set movie_columns. map_of d c \<noteq> None)
        \<and> (\<exists>gs. map_of d ''genre_ids'' = Some (PList gs))"
  shows "\<exists>df_movies df_genres. filter_data cleaned_data genres_list
      = Inr (df_movies, df_genres,
          DataFrame (concat (map (\<lambda>d. map (\<lambda>genre_id. (cell_of d ''id'', genre_id)) (genre_ids_of d))
            cleaned_data)))"
  using filter_data_shapeable [of cleaned_data genres_list] assms by blast

theorem link_table_rows_witness:
  "\<exists>df_movies df_genres. filter_data batch_with_genres genre_catalog
      = Inr (df_movies, df_genres,
          Frame [(Cell (PInt 5), PInt 12), (Cell (PInt 5), PInt 12), (Cell (PInt 5), PInt 878),
                 (Cell (PInt 7), PInt 878), (Cell (PInt 7), PInt 12)])"
proof -
  have "batch_with_genres \<noteq> []"
    by (simp add: batch_with_genres_def)
  moreover have "\<forall>d \<in> set batch_with_genres. (\<forall>c \<in> set movie_columns. map_of d c \<noteq> None)
        \<and> (\<exists>gs. map_of d ''genre_ids'' = Some (PList gs))"
    by (simp add: batch_with_genres_def movie_columns_def setitem_def example_movie_def)
  moreover have "DataFrame (concat (map (\<lambda>d. map (\<lambda>genre_id. (cell_of d ''id'', genre_id))
        (genre_ids_of d)) batch_with_genres))
      = Frame [(Cell (PInt 5), PInt 12), (Cell (PInt 5), PInt 12), (Cell (PInt 5), PInt 878),
               (Cell (PInt 7), PInt 878), (Cell (PInt 7), PInt 12)]"
    by (simp add: batch_with_genres_def genre_ids_of_def cell_of_def setitem_def
        example_movie_def DataFrame_def)
  ultimately show ?thesis
    using link_table_rows [of batch_with_genres genre_catalog] by simp
qed

text \<open>
  C10. On the empty batch \<^verbatim>\<open>filter_data\<close> raises KeyError instead of returning three
  empty tables: the frame built from no record has no column to project on. It returns
  its three tables when the batch is not empty and every record carries the seven movie
  attributes and a list of genre identifiers; a batch whose only record lacks the
  genre identifiers, or the title, raises as well.
\<close>

theorem filter_data_needs_records:
  "filter_data [] genres_list = Inl KeyError
   \<and> (cleaned_data \<noteq> []
        \<and> (\<forall>d \<in> set cleaned_data. (\<forall>c \<in> set movie_columns. map_of d c \<noteq> None)
              \<and> (\<exists>gs. map_of d ''genre_ids'' = Some (PList gs)))
      \<longrightarrow> (\<exists>tables. filter_data cleaned_data genres_list = Inr tables))
   \<and> filter_data [AList.delete ''genre_ids''
        (example_movie (PInt 5) (PStr ''2024-05-17'') (PStr ''first''))] genres_list
      = Inl KeyError
   \<and> filter_data [AList.delete ''title''
        (example_movie (PInt 5) (PStr ''2024-05-17'') (PStr ''first''))] genres_list
      = Inl KeyError"
proof -
  have "filter_data [] genres_list = Inl KeyError"
    by (simp add: shape_eval)
  moreover have "\<exists>tables. filter_data cleaned_data genres_list = Inr tables"
    if "cleaned_data \<noteq> []"
      "\<forall>d \<in> set cleaned_data. (\<forall>c \<in> set movie_columns. map_of d c \<noteq> None)
              \<and> (\<exists>gs. map_of d ''genre_ids'' = Some (PList gs))"
    using filter_data_shapeable [of cleaned_data genres_list] that by blast
  moreover have "filter_data [AList.delete ''genre_ids''
        (example_movie (PInt 5) (PStr ''2024-05-17'') (PStr ''first''))] genres_list
      = Inl KeyError"
    by (simp add: shape_eval)
  moreover have "filter_data [AList.delete ''title''
        (example_movie (PInt 5) (PStr ''2024-05-17'') (PStr ''first''))] genres_list
      = Inl KeyError"
    by (simp add: shape_eval)
  ultimately show ?thesis by blast
qed

theorem filter_data_needs_records_witness:
  "filter_data [] genre_catalog = Inl KeyError
   \<and> (\<exists>tables. filter_data batch_with_genres genre_catalog = Inr tables)"
proof -
  have "batch_with_genres \<noteq> []"
    by (simp add: batch_with_genres_def)
  moreover have "\<forall>d \<in> set batch_with_genres. (\<forall>c \<in> set movie_columns. map_of d c \<noteq> None)
        \<and> (\<exists>gs. map_of d ''genre_ids'' = Some (PList gs))"
    by (simp add: batch_with_genres_def movie_columns_def setitem_def example_movie_def)
  ultimately show ?thesis
    using filter_data_needs_records [of genre_catalog batch_with_genres] by blast
qed

section \<open>Reconciliation\<close>

lemma boolean_index_invert_isin:
  "boolean_index rows (invert (isin (map key rows) existing))
     = filter (\<lambda>x. key x \<notin> set existing) rows"
  by (induction rows) (simp_all add: boolean_index_def invert_def isin_def)

lemma merge_left_only:
  "map fst (filter (\<lambda>row. snd row = left_only)
      (concat (map (\<lambda>l. let partners = filter (\<lambda>r. r = l) right
                         in if partners = [] then [(l, left_only)]
                            else map (\<lambda>r. (l, both)) partners) rows)))
     = filter (\<lambda>x. x \<notin> set right) rows"
proof (induction rows)
  case Nil
  show ?case by simp
next
  case (Cons l rows)
  have none: "filter (\<lambda>row. snd row = left_only) (map (\<lambda>r. (l, both)) ps) = []" for ps :: "movie_genre_row list"
    by (induction ps) simp_all
  have empty_iff: "(filter (\<lambda>r. r = l) right = []) = (l \<notin> set right)"
    by (auto simp: filter_empty_conv)
  show ?case
    using Cons.IH by (simp add: Let_def none empty_iff)
qed

text \<open>
  C5. For the movies and the genres, the reconciliation returns exactly the candidate
  rows whose identifier is not among the identifiers already persisted, and these rows
  keep the relative order they have among the candidates.
\<close>

theorem reconcile_by_identifier:
  "new_movies_df (Frame ms) existing_movie_ids
      = Inr (filter (\<lambda>x. movie_row_id x \<notin> set existing_movie_ids) ms)
   \<and> new_genres_df (Frame gs) existing_genre_ids
      = Inr (filter (\<lambda>x. genre_row_id x \<notin> set existing_genre_ids) gs)
   \<and> subseq (filter (\<lambda>x. movie_row_id x \<notin> set existing_movie_ids) ms) ms
   \<and> subseq (filter (\<lambda>x. genre_row_id x \<notin> set existing_genre_ids) gs) gs"
  by (simp add: new_movies_df_def new_genres_df_def column_def frame_rows_def
      boolean_index_invert_isin)

text \<open>
  C4. For the link table, the reconciliation is an anti-join on the pair
  (movie_id, genre_id): it returns exactly the candidate rows whose pair is not among the
  persisted pairs, whatever the movie and genre tables hold. The candidates
  (1,10), (2,10), (3,10) against the persisted pair (1,10) give (2,10), (3,10); a
  candidate that shares only its movie or only its genre with a persisted pair is new.
\<close>

theorem reconcile_links_anti_join:
  "new_movie_genres_df (Frame ls) existing_movie_genres
      = Inr (filter (\<lambda>x. x \<notin> set existing_movie_genres) ls)
   \<and> new_movie_genres_df (Frame [(1, 10), (2, 10), (3, 10)]) [(1, 10)]
      = Inr [(2, 10), (3, 10)]
   \<and> new_movie_genres_df (Frame [(1, 10), (1, 20), (2, 10)]) [(1, 10)]
      = Inr [(1, 20), (2, 10)]"
  by (simp add: new_movie_genres_df_def merge_left_def merge_left_only del: map_eq_conv)


section \<open>Properties of the load\<close>

lemma new_movies_df_eq:
  "new_movies_df df (map movie_row_id (movies d))
     = (case df of NoColumns \<Rightarrow> Inl KeyError | Frame ms \<Rightarrow> Inr (new_movie_rows d df))"
  by (simp add: new_movies_df_def column_def frame_rows_def boolean_index_invert_isin
      new_movie_rows_def split: frame.splits)

lemma new_genres_df_eq:
  "new_genres_df df (map genre_row_id (genres d))
     = (case df of NoColumns \<Rightarrow> Inl KeyError | Frame gs \<Rightarrow> Inr (new_genre_rows d df))"
  by (simp add: new_genres_df_def column_def frame_rows_def boolean_index_invert_isin
      new_genre_rows_def split: frame.splits)

lemma new_movie_genres_df_eq:
  "new_movie_genres_df df (movie_genres d)
     = (case df of NoColumns \<Rightarrow> Inl KeyError | Frame ls \<Rightarrow> Inr (new_link_rows d df))"
  by (simp add: new_movie_genres_df_def merge_left_def merge_left_only frame_rows_def
      new_link_rows_def split: frame.splits del: map_eq_conv)

lemma fresh_movie_rows:
  "list_all (\<lambda>x. movie_row_id x \<notin> movie_row_id ` set (movies d)) (new_movie_rows d df)"
  by (simp add: new_movie_rows_def list_all_iff)

lemma fresh_genre_rows:
  "list_all (\<lambda>x. genre_row_id x \<notin> genre_row_id ` set (genres d)) (new_genre_rows d df)"
  by (simp add: new_genre_rows_def list_all_iff)

lemma fresh_link_rows:
  "list_all (\<lambda>x. x \<notin> set (movie_genres d)) (new_link_rows d df)"
  by (simp add: new_link_rows_def list_all_iff)

text \<open>The blocks, in closed form.\<close>

lemma add_new_movies_eq:
  "add_new_movies df r =
     (if Movies \<in> unreadable (store r) then (Some OperationalError, r)
      else case df of
        NoColumns \<Rightarrow> (Some KeyError, r)
      | Frame ms \<Rightarrow>
          (let new = new_movie_rows (store r) df
           in if new = [] then (None, info (Info_nothing Movies) r)
              else if distinct (map movie_row_id new)
              then (None, info (Info_loaded Movies (length new))
                      (r\<lparr>writes := writes r @ [To_movies new],
                         store := (store r)\<lparr>movies := movies (store r) @ new\<rparr>\<rparr>))
              else (Some IntegrityError, r\<lparr>writes := writes r @ [To_movies new]\<rparr>)))"
  by (simp add: fresh_movie_rows add_new_movies_def read_sql_movie_ids_def new_movies_df_eq to_sql_movies_def
      Let_def split: frame.splits)

lemma add_new_genres_eq:
  "add_new_genres df r =
     (if Genres \<in> unreadable (store r) then (Some OperationalError, r)
      else case df of
        NoColumns \<Rightarrow> (Some KeyError, r)
      | Frame gs \<Rightarrow>
          (let new = new_genre_rows (store r) df
           in if new = [] then (None, info (Info_nothing Genres) r)
              else if distinct (map genre_row_id new)
              then (None, info (Info_loaded Genres (length new))
                      (r\<lparr>writes := writes r @ [To_genres new],
                         store := (store r)\<lparr>genres := genres (store r) @ new\<rparr>\<rparr>))
              else (Some IntegrityError, r\<lparr>writes := writes r @ [To_genres new]\<rparr>)))"
  by (simp add: fresh_genre_rows add_new_genres_def read_sql_genre_ids_def new_genres_df_eq to_sql_genres_def
      Let_def split: frame.splits)

lemma add_new_movie_genres_eq:
  "add_new_movie_genres df r =
     (if MovieGenres \<in> unreadable (store r) then (Some OperationalError, r)
      else case df of
        NoColumns \<Rightarrow> (Some KeyError, r)
      | Frame ls \<Rightarrow>
          (let new = new_link_rows (store r) df
           in if new = [] then (None, info (Info_nothing MovieGenres) r)
              else if links_accepted (store r) new
              then (None, info (Info_loaded MovieGenres (length new))
                      (r\<lparr>writes := writes r @ [To_movie_genres new],
                         store := (store r)\<lparr>movie_genres := movie_genres (store r) @ new\<rparr>\<rparr>))
              else (Some IntegrityError, r\<lparr>writes := writes r @ [To_movie_genres new]\<rparr>)))"
  by (simp add: fresh_link_rows add_new_movie_genres_def read_sql_movie_genres_def new_movie_genres_df_eq
      to_sql_movie_genres_def links_accepted_def Let_def split: frame.splits)

lemmas load_blocks = load_data_to_db_def add_new_movies_eq add_new_genres_eq
  add_new_movie_genres_eq info_def Let_def

lemma new_genre_rows_movies [simp]:
  "new_genre_rows (d\<lparr>movies := ms\<rparr>) df = new_genre_rows d df"
  by (simp add: new_genre_rows_def)

lemma new_link_rows_movies [simp]:
  "new_link_rows (d\<lparr>movies := ms\<rparr>) df = new_link_rows d df"
  by (simp add: new_link_rows_def)

lemma new_link_rows_genres [simp]:
  "new_link_rows (d\<lparr>genres := gs\<rparr>) df = new_link_rows d df"
  by (simp add: new_link_rows_def)

lemma load_append_only:
  "(movies (store (load_data_to_db d mdf gdf ldf)) = movies d
      \<or> movies (store (load_data_to_db d mdf gdf ldf)) = movies d @ new_movie_rows d mdf)
   \<and> (genres (store (load_data_to_db d mdf gdf ldf)) = genres d
      \<or> genres (store (load_data_to_db d mdf gdf ldf)) = genres d @ new_genre_rows d gdf)
   \<and> (movie_genres (store (load_data_to_db d mdf gdf ldf)) = movie_genres d
      \<or> movie_genres (store (load_data_to_db d mdf gdf ldf))
          = movie_genres d @ new_link_rows d ldf)
   \<and> unreadable (store (load_data_to_db d mdf gdf ldf)) = unreadable d"
  by (simp add: load_blocks split: frame.splits)

lemma load_writes:
  "subseq (writes (load_data_to_db d mdf gdf ldf))
      [To_movies (new_movie_rows d mdf), To_genres (new_genre_rows d gdf),
       To_movie_genres (new_link_rows d ldf)]
   \<and> To_movies [] \<notin> set (writes (load_data_to_db d mdf gdf ldf))
   \<and> To_genres [] \<notin> set (writes (load_data_to_db d mdf gdf ldf))
   \<and> To_movie_genres [] \<notin> set (writes (load_data_to_db d mdf gdf ldf))"
  by (simp add: load_blocks split: frame.splits)

lemma load_success:
  "succeeded (load_data_to_db d mdf gdf ldf) \<longrightarrow>
     Movies \<notin> unreadable d \<and> Genres \<notin> unreadable d \<and> MovieGenres \<notin> unreadable d
    \<and> mdf \<noteq> NoColumns \<and> gdf \<noteq> NoColumns \<and> ldf \<noteq> NoColumns
    \<and> store (load_data_to_db d mdf gdf ldf)
        = d\<lparr>movies := movies d @ new_movie_rows d mdf,
             genres := genres d @ new_genre_rows d gdf,
             movie_genres := movie_genres d @ new_link_rows d ldf\<rparr>"
  by (simp add: load_blocks succeeded_def is_error_def split: frame.splits)

lemma nothing_new_after_append:
  "new_movie_rows (d\<lparr>movies := movies d @ new_movie_rows d mdf,
             genres := genres d @ new_genre_rows d gdf,
             movie_genres := movie_genres d @ new_link_rows d ldf\<rparr>) mdf = []"
  "new_genre_rows (d\<lparr>movies := movies d @ new_movie_rows d mdf,
             genres := genres d @ new_genre_rows d gdf,
             movie_genres := movie_genres d @ new_link_rows d ldf\<rparr>) gdf = []"
  "new_link_rows (d\<lparr>movies := movies d @ new_movie_rows d mdf,
             genres := genres d @ new_genre_rows d gdf,
             movie_genres := movie_genres d @ new_link_rows d ldf\<rparr>) ldf = []"
  by (auto simp: new_movie_rows_def new_genre_rows_def new_link_rows_def filter_empty_conv)

lemma load_nothing_new:
  "Movies \<notin> unreadable d \<and> Genres \<notin> unreadable d \<and> MovieGenres \<notin> unreadable d
    \<and> mdf \<noteq> NoColumns \<and> gdf \<noteq> NoColumns \<and> ldf \<noteq> NoColumns
    \<and> new_movie_rows d mdf = [] \<and> new_genre_rows d gdf = [] \<and> new_link_rows d ldf = []
   \<longrightarrow> load_data_to_db d mdf gdf ldf
    = \<lparr>store = d, writes = [],
       log = [Info_nothing Movies, Info_nothing Genres, Info_nothing MovieGenres]\<rparr>"
  by (simp add: load_blocks split: frame.splits)

lemma load_idempotent:
  assumes "succeeded (load_data_to_db d mdf gdf ldf)"
  shows "load_data_to_db (store (load_data_to_db d mdf gdf ldf)) mdf gdf ldf
    = \<lparr>store = store (load_data_to_db d mdf gdf ldf), writes = [],
       log = [Info_nothing Movies, Info_nothing Genres, Info_nothing MovieGenres]\<rparr>"
proof -
  let ?d' = "d\<lparr>movies := movies d @ new_movie_rows d mdf,
             genres := genres d @ new_genre_rows d gdf,
             movie_genres := movie_genres d @ new_link_rows d ldf\<rparr>"
  from load_success [of d mdf gdf ldf] assms
  have ok: "Movies \<notin> unreadable ?d' \<and> Genres \<notin> unreadable ?d' \<and> MovieGenres \<notin> unreadable ?d'
      \<and> mdf \<noteq> NoColumns \<and> gdf \<noteq> NoColumns \<and> ldf \<noteq> NoColumns"
    and st: "store (load_data_to_db d mdf gdf ldf) = ?d'"
    by simp_all
  have "load_data_to_db ?d' mdf gdf ldf
    = \<lparr>store = ?d', writes = [],
       log = [Info_nothing Movies, Info_nothing Genres, Info_nothing MovieGenres]\<rparr>"
    using ok nothing_new_after_append load_nothing_new [of ?d' mdf gdf ldf] by blast
  then show ?thesis
    by (simp only: st)
qed

lemmas load_eval = load_data_to_db_def add_new_movies_def add_new_genres_def
  add_new_movie_genres_def read_sql_movie_ids_def read_sql_genre_ids_def
  read_sql_movie_genres_def new_movies_df_def new_genres_df_def new_movie_genres_df_def
  column_def frame_rows_def isin_def invert_def boolean_index_def merge_left_def
  to_sql_movies_def to_sql_genres_def to_sql_movie_genres_def info_def Let_def
  sample_store_def sample_movies_df_def sample_genres_df_def sample_movie_genres_df_def
  sample_movie_def sample_genre_def

lemma sample_run:
  "load_data_to_db (sample_store {}) sample_movies_df sample_genres_df sample_movie_genres_df
     = \<lparr>store = \<lparr>movies = [sample_movie 1, sample_movie 2],
                 genres = [sample_genre 10, sample_genre 20],
                 movie_genres = [(1, 10), (2, 10), (2, 20)], unreadable = {}\<rparr>,
        writes = [To_movies [sample_movie 2], To_genres [sample_genre 20],
                  To_movie_genres [(2, 10), (2, 20)]],
        log = [Info_loaded Movies 1, Info_loaded Genres 1, Info_loaded MovieGenres 2]\<rparr>"
  by (simp add: load_eval)

text \<open>
  C1, as the claim states it, fails. In the sample store only the read of the movie
  identifiers fails; the genre 20 and the link (1, 20) are new and the store would accept
  them, but nothing is computed or appended for the genres and the links.
\<close>

theorem movies_read_failure_skips_all_tables:
  "unreadable (sample_store {Movies}) = {Movies}
   \<and> new_genres_df sample_genres_df (map genre_row_id (genres (sample_store {Movies})))
       = Inr [sample_genre 20]
   \<and> new_movie_genres_df (Frame [(1, 10), (1, 20)]) (movie_genres (sample_store {Movies}))
       = Inr [(1, 20)]
   \<and> load_data_to_db (sample_store {Movies}) (Frame [sample_movie 1]) sample_genres_df
        (Frame [(1, 10), (1, 20)])
       = \<lparr>store = sample_store {Movies}, writes = [], log = [Error_failed OperationalError]\<rparr>"
  by (simp add: load_eval)

text \<open>
  C1, amended. One \<^verbatim>\<open>try\<close> encloses the three loads, in the order movies, genres,
  movie_genres. When the read of the persisted keys of a table fails, the load of that
  table and of the tables after it is skipped: these tables are unchanged. The tables
  before it have been reconciled and appended: when the store accepts their new rows,
  they hold them after the run.
\<close>

theorem read_failure_skips_later_tables:
  "(Movies \<in> unreadable d \<longrightarrow>
      load_data_to_db d movies_df genres_df movie_genres_df
        = \<lparr>store = d, writes = [], log = [Error_failed OperationalError]\<rparr>)
   \<and> (unreadable d = {Genres} \<longrightarrow>
        genres (store (load_data_to_db d movies_df genres_df movie_genres_df)) = genres d
        \<and> movie_genres (store (load_data_to_db d movies_df genres_df movie_genres_df))
            = movie_genres d
        \<and> (movies_df \<noteq> NoColumns \<and> distinct (map movie_row_id (new_movie_rows d movies_df))
            \<longrightarrow> movies (store (load_data_to_db d movies_df genres_df movie_genres_df))
                  = movies d @ new_movie_rows d movies_df))
   \<and> (unreadable d = {MovieGenres} \<longrightarrow>
        movie_genres (store (load_data_to_db d movies_df genres_df movie_genres_df))
            = movie_genres d
        \<and> (movies_df \<noteq> NoColumns \<and> distinct (map movie_row_id (new_movie_rows d movies_df))
             \<and> genres_df \<noteq> NoColumns
             \<and> distinct (map genre_row_id (new_genre_rows d genres_df))
            \<longrightarrow> movies (store (load_data_to_db d movies_df genres_df movie_genres_df))
                  = movies d @ new_movie_rows d movies_df
              \<and> genres (store (load_data_to_db d movies_df genres_df movie_genres_df))
                  = genres d @ new_genre_rows d genres_df))"
  by (simp add: load_blocks split: frame.splits)

theorem read_failure_skips_later_tables_witness:
  "load_data_to_db (sample_store {Movies}) sample_movies_df sample_genres_df
      sample_movie_genres_df
     = \<lparr>store = sample_store {Movies}, writes = [], log = [Error_failed OperationalError]\<rparr>
   \<and> store (load_data_to_db (sample_store {Genres}) sample_movies_df sample_genres_df
        sample_movie_genres_df)
     = \<lparr>movies = [sample_movie 1, sample_movie 2], genres = [sample_genre 10],
         movie_genres = [(1, 10)], unreadable = {Genres}\<rparr>
   \<and> store (load_data_to_db (sample_store {MovieGenres}) sample_movies_df sample_genres_df
        sample_movie_genres_df)
     = \<lparr>movies = [sample_movie 1, sample_movie 2], genres = [sample_genre 10, sample_genre 20],
         movie_genres = [(1, 10)], unreadable = {MovieGenres}\<rparr>"
proof -
  let ?out = "\<lambda>u. load_data_to_db (sample_store u) sample_movies_df sample_genres_df
      sample_movie_genres_df"
  have m: "new_movie_rows (sample_store u) sample_movies_df = [sample_movie 2]"
    and g: "new_genre_rows (sample_store u) sample_genres_df = [sample_genre 20]" for u
    by (simp_all add: new_movie_rows_def new_genre_rows_def frame_rows_def sample_store_def
        sample_movies_df_def sample_genres_df_def sample_movie_def sample_genre_def)
  have frames: "sample_movies_df \<noteq> NoColumns" "sample_genres_df \<noteq> NoColumns"
    by (simp_all add: sample_movies_df_def sample_genres_df_def)
  have u: "Movies \<in> unreadable (sample_store {Movies})"
    "unreadable (sample_store {Genres}) = {Genres}"
    "unreadable (sample_store {MovieGenres}) = {MovieGenres}"
    by (simp_all add: sample_store_def)
  have tables: "movies (sample_store u) = [sample_movie 1]"
    "genres (sample_store u) = [sample_genre 10]"
    "movie_genres (sample_store u) = [(1, 10)]" "unreadable (sample_store u) = u" for u
    by (simp_all add: sample_store_def)
  have "?out {Movies}
     = \<lparr>store = sample_store {Movies}, writes = [], log = [Error_failed OperationalError]\<rparr>"
    using u(1) read_failure_skips_later_tables
      [of "sample_store {Movies}" sample_movies_df sample_genres_df sample_movie_genres_df]
    by blast
  moreover have "movies (store (?out {Genres})) = [sample_movie 1, sample_movie 2]
     \<and> genres (store (?out {Genres})) = [sample_genre 10]
     \<and> movie_genres (store (?out {Genres})) = [(1, 10)]"
    using u(2) frames read_failure_skips_later_tables
      [of "sample_store {Genres}" sample_movies_df sample_genres_df sample_movie_genres_df]
    by (simp add: m g tables)
  moreover have "movies (store (?out {MovieGenres})) = [sample_movie 1, sample_movie 2]
     \<and> genres (store (?out {MovieGenres})) = [sample_genre 10, sample_genre 20]
     \<and> movie_genres (store (?out {MovieGenres})) = [(1, 10)]"
    using u(3) frames read_failure_skips_later_tables
      [of "sample_store {MovieGenres}" sample_movies_df sample_genres_df sample_movie_genres_df]
    by (simp add: m g tables)
  moreover have "unreadable (store (?out u)) = u" for u
    using load_append_only
      [of "sample_store u" sample_movies_df sample_genres_df sample_movie_genres_df]
    by (simp add: tables)
  ultimately show ?thesis
    by (simp add: db.equality)
qed

text \<open>
  C2. After a run that succeeded, a second run with the same candidates finds nothing new
  in any of the three tables: the three deltas are empty, no \<^verbatim>\<open>to_sql\<close> is issued, the
  store is unchanged and the log reports no new rows for each table.
\<close>

theorem load_is_idempotent:
  assumes "succeeded (load_data_to_db d movies_df genres_df movie_genres_df)"
  shows "load_data_to_db (store (load_data_to_db d movies_df genres_df movie_genres_df))
        movies_df genres_df movie_genres_df
      = \<lparr>store = store (load_data_to_db d movies_df genres_df movie_genres_df), writes = [],
         log = [Info_nothing Movies, Info_nothing Genres, Info_nothing MovieGenres]\<rparr>
    \<and> new_movies_df movies_df (map movie_row_id
          (movies (store (load_data_to_db d movies_df genres_df movie_genres_df)))) = Inr []
    \<and> new_genres_df genres_df (map genre_row_id
          (genres (store (load_data_to_db d movies_df genres_df movie_genres_df)))) = Inr []
    \<and> new_movie_genres_df movie_genres_df
          (movie_genres (store (load_data_to_db d movies_df genres_df movie_genres_df))) = Inr []"
proof -
  let ?d' = "d\<lparr>movies := movies d @ new_movie_rows d movies_df,
             genres := genres d @ new_genre_rows d genres_df,
             movie_genres := movie_genres d @ new_link_rows d movie_genres_df\<rparr>"
  from load_success [of d movies_df genres_df movie_genres_df] assms
  have frames: "movies_df \<noteq> NoColumns" "genres_df \<noteq> NoColumns" "movie_genres_df \<noteq> NoColumns"
    and st: "store (load_data_to_db d movies_df genres_df movie_genres_df) = ?d'"
    by simp_all
  have "new_movies_df movies_df (map movie_row_id (movies ?d')) = Inr []"
    using frames(1) nothing_new_after_append(1)
    by (simp only: new_movies_df_eq split: frame.splits) simp
  moreover have "new_genres_df genres_df (map genre_row_id (genres ?d')) = Inr []"
    using frames(2) nothing_new_after_append(2)
    by (simp only: new_genres_df_eq split: frame.splits) simp
  moreover have "new_movie_genres_df movie_genres_df (movie_genres ?d') = Inr []"
    using frames(3) nothing_new_after_append(3)
    by (simp only: new_movie_genres_df_eq split: frame.splits) simp
  ultimately show ?thesis
    using load_idempotent [OF assms] by (simp only: st)
qed

theorem load_is_idempotent_witness:
  "succeeded (load_data_to_db (sample_store {}) sample_movies_df sample_genres_df
      sample_movie_genres_df)
   \<and> load_data_to_db
        \<lparr>movies = [sample_movie 1, sample_movie 2], genres = [sample_genre 10, sample_genre 20],
          movie_genres = [(1, 10), (2, 10), (2, 20)], unreadable = {}\<rparr>
        sample_movies_df sample_genres_df sample_movie_genres_df
     = \<lparr>store = \<lparr>movies = [sample_movie 1, sample_movie 2],
                 genres = [sample_genre 10, sample_genre 20],
                 movie_genres = [(1, 10), (2, 10), (2, 20)], unreadable = {}\<rparr>,
        writes = [],
        log = [Info_nothing Movies, Info_nothing Genres, Info_nothing MovieGenres]\<rparr>"
proof -
  have ok: "succeeded (load_data_to_db (sample_store {}) sample_movies_df sample_genres_df
      sample_movie_genres_df)"
    by (simp add: sample_run succeeded_def is_error_def)
  from load_is_idempotent [OF ok] show ?thesis
    using ok by (simp add: sample_run)
qed

text \<open>
  C9. A load only appends: after it every table is the table of before, followed either
  by nothing or by the new rows that the reconciliation computed for it. It issues at
  most one \<^verbatim>\<open>to_sql\<close> per table, with exactly these new rows, and none with no rows: a
  table whose delta is empty gets no write.
\<close>

theorem load_appends_only_new_rows:
  "(movies (store (load_data_to_db d movies_df genres_df movie_genres_df)) = movies d
      \<or> movies (store (load_data_to_db d movies_df genres_df movie_genres_df))
          = movies d @ new_movie_rows d movies_df)
   \<and> (genres (store (load_data_to_db d movies_df genres_df movie_genres_df)) = genres d
      \<or> genres (store (load_data_to_db d movies_df genres_df movie_genres_df))
          = genres d @ new_genre_rows d genres_df)
   \<and> (movie_genres (store (load_data_to_db d movies_df genres_df movie_genres_df))
          = movie_genres d
      \<or> movie_genres (store (load_data_to_db d movies_df genres_df movie_genres_df))
          = movie_genres d @ new_link_rows d movie_genres_df)
   \<and> subseq (writes (load_data_to_db d movies_df genres_df movie_genres_df))
        [To_movies (new_movie_rows d movies_df), To_genres (new_genre_rows d genres_df),
         To_movie_genres (new_link_rows d movie_genres_df)]
   \<and> To_movies [] \<notin> set (writes (load_data_to_db d movies_df genres_df movie_genres_df))
   \<and> To_genres [] \<notin> set (writes (load_data_to_db d movies_df genres_df movie_genres_df))
   \<and> To_movie_genres [] \<notin> set (writes (load_data_to_db d movies_df genres_df movie_genres_df))"
  using load_append_only [of d movies_df genres_df movie_genres_df]
    load_writes [of d movies_df genres_df movie_genres_df]
  by blast

theorem load_appends_only_new_rows_witness:
  "To_movies [] \<notin> set (writes (load_data_to_db (sample_store {}) (Frame [sample_movie 1])
        sample_genres_df sample_movie_genres_df))
   \<and> writes (load_data_to_db (sample_store {}) (Frame [sample_movie 1]) sample_genres_df
        sample_movie_genres_df)
     = [To_genres [sample_genre 20], To_movie_genres [(2, 10), (2, 20)]]
   \<and> store (load_data_to_db (sample_store {}) (Frame [sample_movie 1]) sample_genres_df
        sample_movie_genres_df)
     = \<lparr>movies = [sample_movie 1], genres = [sample_genre 10, sample_genre 20],
         movie_genres = [(1, 10)], unreadable = {}\<rparr>"
proof -
  have run: "load_data_to_db (sample_store {}) (Frame [sample_movie 1]) sample_genres_df
      sample_movie_genres_df
     = \<lparr>store = \<lparr>movies = [sample_movie 1], genres = [sample_genre 10, sample_genre 20],
                 movie_genres = [(1, 10)], unreadable = {}\<rparr>,
        writes = [To_genres [sample_genre 20], To_movie_genres [(2, 10), (2, 20)]],
        log = [Info_nothing Movies, Info_loaded Genres 1, Error_failed IntegrityError]\<rparr>"
    by (simp add: load_eval)
  from load_appends_only_new_rows
      [of "sample_store {}" "Frame [sample_movie 1]" sample_genres_df sample_movie_genres_df]
  have "To_movies [] \<notin> set (writes (load_data_to_db (sample_store {}) (Frame [sample_movie 1])
        sample_genres_df sample_movie_genres_df))"
    by blast
  then show ?thesis
    by (simp add: run)
qed

end
